theory Spec2Isabelle
  imports Complex_Main "HOL-Library.Char_ord"
begin

section \<open>Strings: the sanitizer and the name parser\<close>

text \<open>
  Go strings are byte sequences; \<open>string\<close> is a list of 8-bit characters, and the
  comparisons of \<open>sanitizeName\<close> are comparisons of byte values (\<open>Char_ord\<close>).
\<close>

definition allowed :: "char \<Rightarrow> bool" where
  "allowed c \<longleftrightarrow>
     (CHR ''a'' \<le> c \<and> c \<le> CHR ''z'') \<or> (CHR ''A'' \<le> c \<and> c \<le> CHR ''Z'') \<or>
     c = CHR ''_'' \<or> c = CHR '':'' \<or> (CHR ''0'' \<le> c \<and> c \<le> CHR ''9'')"

text \<open>
  The loop of \<open>sanitizeName\<close>: \<open>ret\<close> is the byte slice copied from \<open>key\<close>, \<open>i\<close> the
  loop index; the byte tested is \<open>key[i]\<close>, the byte overwritten is \<open>ret[i]\<close>.
\<close>

function sanitize_loop :: "string \<Rightarrow> string \<Rightarrow> nat \<Rightarrow> string" where
  "sanitize_loop key ret i =
     (if i < length ret
      then sanitize_loop key (if \<not> allowed (key ! i) then ret[i := CHR ''_''] else ret) (Suc i)
      else ret)"
  by pat_completeness auto
termination
  by (relation "measure (\<lambda>(key, ret, i). length ret - i)") auto

declare sanitize_loop.simps [simp del]

definition sanitizeName :: "string \<Rightarrow> string" where
  "sanitizeName key = sanitize_loop key key 0"

text \<open>
  \<open>strings.Index\<close> of the Go standard library: the index of the first occurrence of
  \<open>substr\<close>, or \<open>-1\<close>.
\<close>

fun Index :: "string \<Rightarrow> string \<Rightarrow> int" where
  "Index [] substr = (if substr = [] then 0 else - 1)"
| "Index (c # cs) substr =
     (if take (length substr) (c # cs) = substr then 0
      else (let i = Index cs substr in if i < 0 then - 1 else i + 1))"

definition parseMetricName :: "string \<Rightarrow> string \<times> string \<times> string" where
  "parseMetricName name =
     (let i = Index name ''-for-broker-'' in
      if i \<ge> 0 then (take (nat i) name, drop (nat i + length ''-for-broker-'') name, '''')
      else
        (let i = Index name ''-for-topic-'' in
         if i \<ge> 0 then (take (nat i) name, '''', drop (nat i + length ''-for-topic-'') name)
         else (name, '''', '''')))"

text \<open>What the specification means by a name containing a marker, and by mapping one character.\<close>

definition contains :: "string \<Rightarrow> string \<Rightarrow> bool" where
  "contains s m \<longleftrightarrow> (\<exists>pre post. s = pre @ m @ post)"

definition sanitize_char :: "char \<Rightarrow> char" where
  "sanitize_char c = (if allowed c then c else CHR ''_'')"

section \<open>The exporter and the objects it points to\<close>

text \<open>
  A Go map is a reference: \<open>NilMap\<close> is the nil map (reads as empty, panics on
  assignment), \<open>MapRef a\<close> points to the map object at address \<open>a\<close>. The type
  \<open>labels\<close> of the source is such a reference; the contents of a map object are a
  \<open>label_set\<close>.
\<close>

type_synonym addr = nat

type_synonym label_set = "string \<rightharpoonup> string"

datatype labels = NilMap | MapRef addr

record Options =
  Namespace :: string
  Subsystem :: string
  Labels :: labels
  Debug :: bool

text \<open>
  The Prometheus client library, as far as the exporter uses it. A \<open>GaugeVec\<close> is its
  immutable description (the \<open>GaugeOpts\<close> and the label names; Go ranges over the label
  map in no fixed order, so the names are a set) and the address of its children, one
  gauge value per label set. \<open>Child a lv\<close> is the gauge that \<open>With\<close> binds: the child of the
  vector at \<open>a\<close> for the label values \<open>lv\<close>, which \<open>With\<close> copies out of the map it is given.
\<close>

record GaugeVec =
  gv_addr :: addr
  gv_Namespace :: string
  gv_Subsystem :: string
  gv_Name :: string
  gv_Help :: string
  gv_labelNames :: "string set"

datatype prom_Gauge = Child addr label_set

record Desc =
  d_fqName :: string
  d_help :: string
  d_constLabels :: label_set

record constHistogram =
  h_desc :: Desc
  h_count :: nat
  h_sum :: real
  h_buckets :: "real \<rightharpoonup> nat"

datatype collector = GaugeVecC GaugeVec | CustomCollectorC addr | OtherCollector nat

datatype reg_error = AlreadyRegisteredError collector | OtherError string

text \<open>
  The errors the exporter returns, and the panics that abort it: assignment to an entry of
  a nil map, an index out of range, \<open>MustRegister\<close> on a registration error, and
  \<open>GaugeVec.With\<close> on label names that are not the vector's.
\<close>

datatype error =
    NotGaugeVec
  | RegisterFailed string
  | UnexpectedMetricType
  | ConstHistogramFailed string

datatype panic =
    NilMapAssignment
  | IndexOutOfRange
  | MustRegisterPanic reg_error
  | WithPanic

text \<open>
  \<open>prometheus.Registerer\<close> is an interface and \<open>prometheus.NewConstHistogram\<close> validates
  its arguments inside the library. Their answers are parameters of the model:
  \<open>Register env calls c\<close> is the answer of the registerer to \<open>Register(c)\<close> after the
  calls \<open>calls\<close>, and \<open>ConstHistogramCheck\<close> is the error, if any, of building a constant
  histogram.
\<close>

record prom =
  Register :: "collector list \<Rightarrow> collector \<Rightarrow> reg_error option"
  ConstHistogramCheck :: "Desc \<Rightarrow> nat \<Rightarrow> real \<Rightarrow> (real \<rightharpoonup> nat) \<Rightarrow> string option"

datatype log_line = LogUpdate | LogSkip string

text \<open>
  The struct \<open>exporter\<close>. The fields down to \<open>metricsNameMap\<close> are the fields of the
  source (the maps of the struct itself are allocated by its constructor;
  \<open>promRegistry\<close> holds the collectors handed to the registerer so far, in order).
  The remaining fields are the objects the struct points to: the label map objects, the
  children of the gauge vectors, the \<open>metric\<close> field of each \<open>customCollector\<close>, the next
  unused address of each kind, and the lines printed in debug mode. Floating-point numbers
  are reals; the lock \<open>mu\<close> has no content in a sequential run.
\<close>

record exporter =
  opt :: Options
  promRegistry :: "collector list"
  gauges :: "string \<rightharpoonup> prom_Gauge"
  customMetrics :: "string \<rightharpoonup> addr"
  histogramBuckets :: "real list"
  timerBuckets :: "real list"
  labelsMap :: "string \<rightharpoonup> labels"
  metricsNameMap :: "string \<rightharpoonup> bool"
  label_objs :: "addr \<Rightarrow> label_set"
  gauge_objs :: "addr \<Rightarrow> (label_set \<rightharpoonup> real)"
  next_vec :: addr
  collector_objs :: "addr \<Rightarrow> constHistogram option"
  next_collector :: addr
  stdout :: "log_line list"

text \<open>The metrics of the upstream registry, each with what its snapshot reports.\<close>

record HistogramSnapshot =
  hs_Values :: "int list"
  hs_Percentiles :: "real list \<Rightarrow> real list"
  hs_Count :: int
  hs_Sum :: int

record TimerSnapshot =
  ts_Rate1 :: real
  ts_Percentiles :: "real list \<Rightarrow> real list"
  ts_Count :: int
  ts_Sum :: int

datatype metric =
    Counter int
  | Gauge int
  | GaugeFloat64 real
  | Histogram HistogramSnapshot
  | Meter real
  | Timer TimerSnapshot
  | OtherMetric

subsection \<open>Map and library operations\<close>

definition deref :: "exporter \<Rightarrow> labels \<Rightarrow> label_set" where
  "deref c m = (case m of NilMap \<Rightarrow> Map.empty | MapRef a \<Rightarrow> label_objs c a)"

definition map_assign :: "labels \<Rightarrow> string \<Rightarrow> string \<Rightarrow> exporter \<Rightarrow> panic + exporter" where
  "map_assign m k v c =
     (case m of
        NilMap \<Rightarrow> Inl NilMapAssignment
      | MapRef a \<Rightarrow> Inr (c\<lparr>label_objs := (label_objs c)(a := (label_objs c a)(k \<mapsto> v))\<rparr>))"

definition lookup_bool :: "(string \<rightharpoonup> bool) \<Rightarrow> string \<Rightarrow> bool" where
  "lookup_bool m k = (case m k of Some b \<Rightarrow> b | None \<Rightarrow> False)"

definition With :: "GaugeVec \<Rightarrow> label_set \<Rightarrow> exporter \<Rightarrow> panic + (prom_Gauge \<times> exporter)" where
  "With g lv c =
     (if dom lv \<noteq> gv_labelNames g then Inl WithPanic
      else Inr (Child (gv_addr g) lv,
             (case gauge_objs c (gv_addr g) lv of
                Some v \<Rightarrow> c
              | None \<Rightarrow> c\<lparr>gauge_objs := (gauge_objs c)(gv_addr g := (gauge_objs c (gv_addr g))(lv \<mapsto> 0))\<rparr>)))"

definition Set_gauge :: "prom_Gauge \<Rightarrow> real \<Rightarrow> exporter \<Rightarrow> exporter" where
  "Set_gauge h v c =
     (case h of Child a lv \<Rightarrow> c\<lparr>gauge_objs := (gauge_objs c)(a := (gauge_objs c a)(lv \<mapsto> v))\<rparr>)"

definition gauge_value :: "exporter \<Rightarrow> prom_Gauge \<Rightarrow> real option" where
  "gauge_value c h = (case h of Child a lv \<Rightarrow> gauge_objs c a lv)"

definition BuildFQName :: "string \<Rightarrow> string \<Rightarrow> string \<Rightarrow> string" where
  "BuildFQName namespace subsystem name =
     (if name = '''' then ''''
      else if namespace \<noteq> '''' \<and> subsystem \<noteq> '''' then namespace @ ''_'' @ subsystem @ ''_'' @ name
      else if namespace \<noteq> '''' then namespace @ ''_'' @ name
      else if subsystem \<noteq> '''' then subsystem @ ''_'' @ name
      else name)"

text \<open>
  The conversions \<open>uint64(int64)\<close> (two's complement) and \<open>uint64(float64)\<close>
  (truncation; where the value is out of range Go leaves the result to the implementation).
\<close>

definition uint64_of_int64 :: "int \<Rightarrow> nat" where
  "uint64_of_int64 i = nat (i mod 2 ^ 64)"

definition uint64_of_float64 :: "real \<Rightarrow> nat" where
  "uint64_of_float64 x = (if 0 \<le> x \<and> x < 2 ^ 64 then nat \<lfloor>x\<rfloor> else undefined)"

section \<open>The operations of the exporter\<close>

text \<open>
  Every operation returns \<open>Inl p\<close> when it panics with \<open>p\<close>, and otherwise \<open>Inr\<close> of what the
  Go function returns together with the exporter as the call leaves it. An operation that
  returns an error has still made the changes that precede the \<open>return\<close>.
\<close>

definition createKey :: "exporter \<Rightarrow> string \<Rightarrow> string" where
  "createKey c name = Namespace (opt c) @ ''_'' @ Subsystem (opt c) @ ''_'' @ name"

definition metricNameAndLabels ::
    "exporter \<Rightarrow> string \<Rightarrow> panic + (string \<times> labels \<times> bool \<times> exporter)" where
  "metricNameAndLabels c metricName =
     (case parseMetricName metricName of (newName, broker, topic) \<Rightarrow>
        if broker = '''' \<and> topic = '''' then Inr (newName, NilMap, True, c)
        else
          (case labelsMap c metricName of
             Some labels \<Rightarrow> Inr (newName, labels, False, c)
           | None \<Rightarrow>
               (let labels = Labels (opt c) in
                case (if broker \<noteq> '''' then map_assign labels ''broker'' broker c else Inr c) of
                  Inl p \<Rightarrow> Inl p
                | Inr c1 \<Rightarrow>
                    (case (if topic \<noteq> '''' then map_assign labels ''topic'' topic c1 else Inr c1) of
                       Inl p \<Rightarrow> Inl p
                     | Inr c2 \<Rightarrow>
                         Inr (newName, labels, False,
                              c2\<lparr>labelsMap := (labelsMap c2)(metricName \<mapsto> labels)\<rparr>)))))"

text \<open>
  The last two statements of \<open>gaugeFromNameAndValue\<close> once the vector \<open>g\<close> is known:
  \<open>c.gauges[name] = g.With(labels)\<close> and \<open>c.gauges[name].Set(val)\<close>.
\<close>

definition bind_and_set ::
    "exporter \<Rightarrow> string \<Rightarrow> GaugeVec \<Rightarrow> labels \<Rightarrow> real \<Rightarrow> panic + (error option \<times> exporter)" where
  "bind_and_set c name g labels val =
     (case With g (deref c labels) c of
        Inl p \<Rightarrow> Inl p
      | Inr (h, c1) \<Rightarrow> Inr (None, Set_gauge h val (c1\<lparr>gauges := (gauges c1)(name \<mapsto> h)\<rparr>)))"

definition gaugeFromNameAndValue ::
    "prom \<Rightarrow> exporter \<Rightarrow> string \<Rightarrow> real \<Rightarrow> panic + (error option \<times> exporter)" where
  "gaugeFromNameAndValue env c name val =
     (case metricNameAndLabels c name of
        Inl p \<Rightarrow> Inl p
      | Inr (shortName, labels, skip, c1) \<Rightarrow>
          if skip then
            Inr (None, if Debug (opt c1) then c1\<lparr>stdout := stdout c1 @ [LogSkip name]\<rparr> else c1)
          else
            (case gauges c1 name of
               Some h \<Rightarrow> Inr (None, Set_gauge h val c1)
             | None \<Rightarrow>
                 (let labelNames = dom (deref c1 labels);
                      metricName = sanitizeName shortName
                  in
                  if lookup_bool (metricsNameMap c1) metricName then Inr (None, c1)
                  else
                    (let c2 = c1\<lparr>metricsNameMap := (metricsNameMap c1)(metricName \<mapsto> True)\<rparr>;
                         g = \<lparr>gv_addr = next_vec c2,
                              gv_Namespace = sanitizeName (Namespace (opt c2)),
                              gv_Subsystem = sanitizeName (Subsystem (opt c2)),
                              gv_Name = sanitizeName shortName,
                              gv_Help = shortName,
                              gv_labelNames = labelNames\<rparr>;
                         c3 = c2\<lparr>next_vec := Suc (next_vec c2),
                                 gauge_objs := (gauge_objs c2)(next_vec c2 := Map.empty)\<rparr>;
                         err = Register env (promRegistry c3) (GaugeVecC g);
                         c4 = c3\<lparr>promRegistry := promRegistry c3 @ [GaugeVecC g]\<rparr>
                     in
                     case err of
                       None \<Rightarrow> bind_and_set c4 name g labels val
                     | Some (AlreadyRegisteredError existing) \<Rightarrow>
                         (case existing of
                            GaugeVecC g' \<Rightarrow> bind_and_set c4 name g' labels val
                          | CustomCollectorC a \<Rightarrow> Inr (Some NotGaugeVec, c4)
                          | OtherCollector k \<Rightarrow> Inr (Some NotGaugeVec, c4))
                     | Some (OtherError e) \<Rightarrow> Inr (Some (RegisterFailed e), c4)))))"

text \<open>
  The first block of \<open>histogramFromNameAndMetric\<close>: the collector stored under the key, or a
  new one, registered with \<open>MustRegister\<close> and then stored.
\<close>

definition getCollector :: "prom \<Rightarrow> exporter \<Rightarrow> string \<Rightarrow> panic + (addr \<times> exporter)" where
  "getCollector env c key =
     (case customMetrics c key of
        Some collector \<Rightarrow> Inr (collector, c)
      | None \<Rightarrow>
          (let collector = next_collector c;
               c1 = c\<lparr>next_collector := Suc (next_collector c),
                       collector_objs := (collector_objs c)(next_collector c := None)\<rparr>
           in
           case Register env (promRegistry c1) (CustomCollectorC collector) of
             Some e \<Rightarrow> Inl (MustRegisterPanic e)
           | None \<Rightarrow>
               Inr (collector,
                    c1\<lparr>promRegistry := promRegistry c1 @ [CustomCollectorC collector],
                       customMetrics := (customMetrics c1)(key \<mapsto> collector)\<rparr>)))"

text \<open>The type switch: percentiles, count, sum and type name, or nothing for another kind.\<close>

definition snapshotData :: "metric \<Rightarrow> real list \<Rightarrow> (real list \<times> nat \<times> real \<times> string) option" where
  "snapshotData goMetric buckets =
     (case goMetric of
        Histogram snapshot \<Rightarrow>
          Some (hs_Percentiles snapshot buckets, uint64_of_int64 (hs_Count snapshot),
                real_of_int (hs_Sum snapshot), ''histogram'')
      | Timer snapshot \<Rightarrow>
          Some (ts_Percentiles snapshot buckets, uint64_of_int64 (ts_Count snapshot),
                real_of_int (ts_Sum snapshot), ''timer'')
      | Counter n \<Rightarrow> None
      | Gauge n \<Rightarrow> None
      | GaugeFloat64 x \<Rightarrow> None
      | Meter r \<Rightarrow> None
      | OtherMetric \<Rightarrow> None)"

text \<open>The loop \<open>for ii, bucket := range buckets { bucketVals[bucket] = uint64(ps[ii]) }\<close>.\<close>

fun bucketVals_loop :: "real list \<Rightarrow> real list \<Rightarrow> (real \<rightharpoonup> nat) \<Rightarrow> panic + (real \<rightharpoonup> nat)" where
  "bucketVals_loop [] ps bucketVals = Inr bucketVals"
| "bucketVals_loop (bucket # rest) [] bucketVals = Inl IndexOutOfRange"
| "bucketVals_loop (bucket # rest) (p # ps) bucketVals =
     bucketVals_loop rest ps (bucketVals(bucket \<mapsto> uint64_of_float64 p))"

definition histogramFromNameAndMetric ::
    "prom \<Rightarrow> exporter \<Rightarrow> string \<Rightarrow> metric \<Rightarrow> real list \<Rightarrow> panic + (error option \<times> exporter)" where
  "histogramFromNameAndMetric env c name goMetric buckets =
     (case getCollector env c (createKey c name) of
        Inl p \<Rightarrow> Inl p
      | Inr (collector, c1) \<Rightarrow>
          (case snapshotData goMetric buckets of
             None \<Rightarrow> Inr (Some UnexpectedMetricType, c1)
           | Some (ps, count, sumv, typeName) \<Rightarrow>
               (case bucketVals_loop buckets ps Map.empty of
                  Inl p \<Rightarrow> Inl p
                | Inr bucketVals \<Rightarrow>
                    (case metricNameAndLabels c1 name of
                       Inl p \<Rightarrow> Inl p
                     | Inr (name', labels, skip, c2) \<Rightarrow>
                         if skip then Inr (None, c2)
                         else
                           (let metricName = sanitizeName name' @ ''_'' @ typeName in
                            if lookup_bool (metricsNameMap c2) metricName then Inr (None, c2)
                            else
                              (let c3 = c2\<lparr>metricsNameMap := (metricsNameMap c2)(metricName \<mapsto> True)\<rparr>;
                                   desc = \<lparr>d_fqName = BuildFQName (sanitizeName (Namespace (opt c3)))
                                                        (sanitizeName (Subsystem (opt c3))) metricName,
                                           d_help = sanitizeName name',
                                           d_constLabels = deref c3 labels\<rparr>
                               in
                               case ConstHistogramCheck env desc count sumv bucketVals of
                                 Some e \<Rightarrow> Inr (Some (ConstHistogramFailed e), c3)
                               | None \<Rightarrow>
                                   Inr (None,
                                        c3\<lparr>collector_objs := (collector_objs c3)
                                             (collector := Some \<lparr>h_desc = desc, h_count = count,
                                                                 h_sum = sumv, h_buckets = bucketVals\<rparr>)\<rparr>)))))))"

text \<open>
  The callback that \<open>update\<close> hands to \<open>registry.Each\<close>: \<open>err\<close> is the variable of the
  enclosing function, which the callback assigns. The metrics are the pairs that \<open>Each\<close>
  delivers, in its order.
\<close>

definition update_callback ::
    "prom \<Rightarrow> string \<Rightarrow> metric \<Rightarrow> error option \<Rightarrow> exporter \<Rightarrow> panic + (error option \<times> exporter)" where
  "update_callback env name i err c =
     (case i of
        Counter n \<Rightarrow> gaugeFromNameAndValue env c name (real_of_int n)
      | Gauge n \<Rightarrow> gaugeFromNameAndValue env c name (real_of_int n)
      | GaugeFloat64 x \<Rightarrow> gaugeFromNameAndValue env c name x
      | Histogram snapshot \<Rightarrow>
          (case (if hs_Values snapshot \<noteq> []
                 then gaugeFromNameAndValue env c name (real_of_int (last (hs_Values snapshot)))
                 else Inr (err, c)) of
             Inl p \<Rightarrow> Inl p
           | Inr (err1, c1) \<Rightarrow>
               if err1 = None then histogramFromNameAndMetric env c1 name i (histogramBuckets c1)
               else Inr (err1, c1))
      | Meter rate1 \<Rightarrow> gaugeFromNameAndValue env c name rate1
      | Timer snapshot \<Rightarrow>
          (case gaugeFromNameAndValue env c name (ts_Rate1 snapshot) of
             Inl p \<Rightarrow> Inl p
           | Inr (err1, c1) \<Rightarrow>
               if err1 = None then histogramFromNameAndMetric env c1 name i (timerBuckets c1)
               else Inr (err1, c1))
      | OtherMetric \<Rightarrow> Inr (err, c))"

fun Each ::
    "prom \<Rightarrow> (string \<times> metric) list \<Rightarrow> error option \<Rightarrow> exporter \<Rightarrow> panic + (error option \<times> exporter)" where
  "Each env [] err c = Inr (err, c)"
| "Each env ((name, i) # rest) err c =
     (case update_callback env name i err c of
        Inl p \<Rightarrow> Inl p
      | Inr (err1, c1) \<Rightarrow> Each env rest err1 c1)"

definition update :: "prom \<Rightarrow> (string \<times> metric) list \<Rightarrow> exporter \<Rightarrow> panic + (error option \<times> exporter)" where
  "update env registry c =
     Each env registry None (if Debug (opt c) then c\<lparr>stdout := stdout c @ [LogUpdate]\<rparr> else c)"

section \<open>Runs of the exporter\<close>



text \<open>
  How many of the collectors handed to the registerer are gauge vectors with the name \<open>n\<close>,
  and the invariant of the name set: a name outside the set has none, a name in it at most
  one.
\<close>

definition is_gauge_named :: "string \<Rightarrow> collector \<Rightarrow> bool" where
  "is_gauge_named n col = (case col of GaugeVecC g \<Rightarrow> gv_Name g = n | CustomCollectorC a \<Rightarrow> False
                           | OtherCollector k \<Rightarrow> False)"

definition gauge_regs :: "string \<Rightarrow> collector list \<Rightarrow> nat" where
  "gauge_regs n calls = length (filter (is_gauge_named n) calls)"


text \<open>Every cached label set is the configured map object itself.\<close>

definition cache_aliases :: "exporter \<Rightarrow> bool" where
  "cache_aliases c \<longleftrightarrow> (\<forall>n l. labelsMap c n = Some l \<longrightarrow> l = Labels (opt c))"

text \<open>
  An exporter before its first cycle: its own maps empty, nothing handed to the
  registerer, nothing printed. A registerer and a library that accept everything.
\<close>

definition fresh_exporter ::
    "Options \<Rightarrow> real list \<Rightarrow> real list \<Rightarrow> (addr \<Rightarrow> label_set) \<Rightarrow> exporter" where
  "fresh_exporter options hb tb objs =
     \<lparr>opt = options, promRegistry = [], gauges = Map.empty, customMetrics = Map.empty,
      histogramBuckets = hb, timerBuckets = tb, labelsMap = Map.empty,
      metricsNameMap = Map.empty, label_objs = objs, gauge_objs = (\<lambda>a. Map.empty),
      next_vec = 0, collector_objs = (\<lambda>a. None), next_collector = 0, stdout = []\<rparr>"

definition accepting :: prom where
  "accepting = \<lparr>Register = (\<lambda>calls col. None), ConstHistogramCheck = (\<lambda>desc n s b. None)\<rparr>"


text \<open>
  The exporter and the snapshots of the scenarios: namespace \<open>ns\<close>, subsystem \<open>sarama\<close>, an
  empty configured label map at address 0, both bucket lists \<open>[0.5, 0.95]\<close>; a histogram
  with the samples 10, 20, 30, and the same histogram one sample later.
\<close>

definition demo_options :: Options where
  "demo_options = \<lparr>Namespace = ''ns'', Subsystem = ''sarama'', Labels = MapRef 0, Debug = False\<rparr>"

definition demo_exporter :: exporter where
  "demo_exporter = fresh_exporter demo_options [1/2, 19/20] [1/2, 19/20] (\<lambda>a. Map.empty)"

definition first_snapshot :: HistogramSnapshot where
  "first_snapshot = \<lparr>hs_Values = [10, 20, 30], hs_Percentiles = (\<lambda>ps. [20, 30]),
                      hs_Count = 3, hs_Sum = 60\<rparr>"

definition second_snapshot :: HistogramSnapshot where
  "second_snapshot = \<lparr>hs_Values = [10, 20, 30, 40], hs_Percentiles = (\<lambda>ps. [25, 40]),
                       hs_Count = 4, hs_Sum = 100\<rparr>"

definition after_first_cycle :: exporter where
  "after_first_cycle =
     snd (projr (update accepting [(''outgoing-byte-rate-for-broker-7'', Histogram first_snapshot)]
                   demo_exporter))"

definition after_second_cycle :: exporter where
  "after_second_cycle =
     snd (projr (update accepting [(''outgoing-byte-rate-for-broker-7'', Histogram second_snapshot)]
                   after_first_cycle))"

text \<open>Two publishes for two topics of one base name, and the first of them published again.\<close>

definition after_orders :: exporter where
  "after_orders = snd (projr (gaugeFromNameAndValue accepting demo_exporter ''req-rate-for-topic-orders'' 1))"

definition after_payments :: exporter where
  "after_payments = snd (projr (gaugeFromNameAndValue accepting after_orders ''req-rate-for-topic-payments'' 2))"



section \<open>The sanitizer\<close>

text \<open>The loop computes the character-wise map.\<close>

lemma sanitize_loop_map:
  "length ret = length key \<Longrightarrow> drop i ret = drop i key \<Longrightarrow>
   sanitize_loop key ret i = take i ret @ map sanitize_char (drop i key)"
proof (induction key ret i rule: sanitize_loop.induct)
  case (1 key ret i)
  show ?case
  proof (cases "i < length ret")
    case False
    with "1.prems" show ?thesis by (subst sanitize_loop.simps) simp
  next
    case True
    define ret' where "ret' = (if \<not> allowed (key ! i) then ret[i := CHR ''_''] else ret)"
    have len: "length ret' = length key" using "1.prems" by (simp add: ret'_def)
    have "ret ! i = hd (drop i ret)" using True by (simp add: hd_drop_conv_nth)
    also have "\<dots> = key ! i" using "1.prems" True by (simp add: hd_drop_conv_nth)
    finally have at: "ret ! i = key ! i" .
    have "drop (Suc i) ret = tl (drop i ret)" by (simp add: drop_Suc tl_drop)
    also have "\<dots> = drop (Suc i) key" using "1.prems"(2) by (simp add: drop_Suc tl_drop)
    finally have dr: "drop (Suc i) ret' = drop (Suc i) key" by (simp add: ret'_def)
    have ih: "sanitize_loop key ret' (Suc i) = take (Suc i) ret' @ map sanitize_char (drop (Suc i) key)"
      using "1.IH"[OF True] len dr unfolding ret'_def by simp
    have tk: "take (Suc i) ret' = take i ret @ [sanitize_char (key ! i)]"
      using True at by (simp add: ret'_def take_Suc_conv_app_nth sanitize_char_def)
    have "drop i key = key ! i # drop (Suc i) key"
      using True "1.prems"(1) by (simp add: Cons_nth_drop_Suc)
    with ih tk True show ?thesis
      by (subst sanitize_loop.simps) (simp add: ret'_def)
  qed
qed

lemma sanitizeName_map: "sanitizeName key = map sanitize_char key"
  using sanitize_loop_map[of key key 0] by (simp add: sanitizeName_def)

lemma allowed_sanitize_char: "allowed (sanitize_char c)"
  by (simp add: sanitize_char_def allowed_def)

lemma sanitize_char_idem: "sanitize_char (sanitize_char c) = sanitize_char c"
  using allowed_sanitize_char[of c] by (simp add: sanitize_char_def)

text \<open>
  C6. For every string \<open>s\<close>, sanitizing twice is sanitizing once, every character of
  \<open>sanitizeName s\<close> is in \<open>[a-zA-Z0-9_:]\<close>, and the result is \<open>s\<close> with every character
  outside that class replaced by \<open>_\<close>. The function is total: it is defined by a
  terminating recursion and has no error result.
\<close>

theorem sanitizeName_idempotent_allowed:
  "sanitizeName (sanitizeName s) = sanitizeName s \<and>
   (\<forall>c \<in> set (sanitizeName s). allowed c) \<and>
   sanitizeName s = map (\<lambda>c. if allowed c then c else CHR ''_'') s"
proof (intro conjI)
  show "sanitizeName (sanitizeName s) = sanitizeName s"
    by (simp add: sanitizeName_map sanitize_char_idem)
  show "\<forall>c \<in> set (sanitizeName s). allowed c"
    by (auto simp: sanitizeName_map allowed_sanitize_char)
  show "sanitizeName s = map (\<lambda>c. if allowed c then c else CHR ''_'') s"
    by (simp add: sanitizeName_map sanitize_char_def[abs_def])
qed

theorem sanitizeName_idempotent_allowed_witness:
  "sanitizeName (sanitizeName ''req-rate.9:x'') = sanitizeName ''req-rate.9:x'' \<and>
   sanitizeName ''req-rate.9:x'' = ''req_rate_9:x'' \<and>
   allowed (CHR ''_'') \<and> \<not> allowed (CHR ''-'')"
proof -
  have "CHR ''_'' \<in> set (sanitizeName ''req-rate.9:x'')"
    by (simp add: sanitizeName_map sanitize_char_def allowed_def)
  with sanitizeName_idempotent_allowed[of "''req-rate.9:x''"] show ?thesis
    by (auto simp: allowed_def)
qed

section \<open>The name parser\<close>

lemma Index_found: "0 \<le> Index s m \<Longrightarrow> \<exists>post. drop (nat (Index s m)) s = m @ post"
proof (induction s)
  case Nil
  then show ?case by (simp split: if_splits)
next
  case (Cons c cs)
  show ?case
  proof (cases "take (length m) (c # cs) = m")
    case True
    have "c # cs = take (length m) (c # cs) @ drop (length m) (c # cs)"
      by (simp only: append_take_drop_id)
    with True have "c # cs = m @ drop (length m) (c # cs)" by simp
    moreover from True have "Index (c # cs) m = 0" by simp
    ultimately show ?thesis by (intro exI[where x = "drop (length m) (c # cs)"]) simp
  next
    case False
    with Cons.prems have nn: "0 \<le> Index cs m" by (simp add: Let_def split: if_splits)
    with False have "Index (c # cs) m = Index cs m + 1" by (simp add: Let_def)
    moreover from nn have "nat (Index cs m + 1) = Suc (nat (Index cs m))" by simp
    ultimately show ?thesis using Cons.IH[OF nn] by simp
  qed
qed

lemma Index_first: "s = p @ m @ q \<Longrightarrow> 0 \<le> Index s m \<and> nat (Index s m) \<le> length p"
proof (induction s arbitrary: p)
  case Nil
  then show ?case by simp
next
  case (Cons c cs)
  show ?case
  proof (cases "take (length m) (c # cs) = m")
    case True
    then show ?thesis by simp
  next
    case False
    with Cons.prems have "p \<noteq> []" by auto
    then obtain p' where p: "p = c # p'" and cs: "cs = p' @ m @ q"
      using Cons.prems by (cases p) auto
    from Cons.IH[OF cs] have *: "0 \<le> Index cs m" "nat (Index cs m) \<le> length p'" by simp_all
    from * False have "Index (c # cs) m = Index cs m + 1" by (simp add: Let_def)
    with * show ?thesis using p by simp
  qed
qed

lemma contains_Index: "contains s m \<longleftrightarrow> 0 \<le> Index s m"
proof
  assume "contains s m"
  then show "0 \<le> Index s m" using Index_first by (auto simp: contains_def)
next
  assume nn: "0 \<le> Index s m"
  from Index_found[OF nn] obtain post where d: "drop (nat (Index s m)) s = m @ post" ..
  have "s = take (nat (Index s m)) s @ drop (nat (Index s m)) s" by simp
  with d have "s = take (nat (Index s m)) s @ m @ post" by simp
  then show "contains s m" unfolding contains_def by blast
qed

lemma parse_first_occurrence:
  assumes nn: "0 \<le> Index s m"
  shows "s = take (nat (Index s m)) s @ m @ drop (nat (Index s m) + length m) s \<and>
           (\<forall>p q. s = p @ m @ q \<longrightarrow> length (take (nat (Index s m)) s) \<le> length p)"
proof -
  from Index_found[OF nn] obtain post where d: "drop (nat (Index s m)) s = m @ post" ..
  have "drop (nat (Index s m) + length m) s = drop (length m) (drop (nat (Index s m)) s)"
    by (simp add: add.commute)
  with d have dp: "drop (nat (Index s m) + length m) s = post" by simp
  have "s = take (nat (Index s m)) s @ drop (nat (Index s m)) s" by simp
  with d dp have s: "s = take (nat (Index s m)) s @ m @ drop (nat (Index s m) + length m) s"
    by simp
  have "\<forall>p q. s = p @ m @ q \<longrightarrow> length (take (nat (Index s m)) s) \<le> length p"
  proof (intro allI impI)
    fix p q assume "s = p @ m @ q"
    from Index_first[OF this] show "length (take (nat (Index s m)) s) \<le> length p" by auto
  qed
  with s show ?thesis by blast
qed

lemma parse_broker:
  "0 \<le> Index name ''-for-broker-'' \<Longrightarrow>
   parseMetricName name =
    (take (nat (Index name ''-for-broker-'')) name,
     drop (nat (Index name ''-for-broker-'') + length ''-for-broker-'') name, '''')"
  by (simp add: parseMetricName_def Let_def)

lemma parse_topic:
  "\<not> 0 \<le> Index name ''-for-broker-'' \<Longrightarrow> 0 \<le> Index name ''-for-topic-'' \<Longrightarrow>
   parseMetricName name =
    (take (nat (Index name ''-for-topic-'')) name, '''',
     drop (nat (Index name ''-for-topic-'') + length ''-for-topic-'') name)"
  by (simp add: parseMetricName_def Let_def)

lemma parse_neither:
  "\<not> 0 \<le> Index name ''-for-broker-'' \<Longrightarrow> \<not> 0 \<le> Index name ''-for-topic-'' \<Longrightarrow>
   parseMetricName name = (name, '''', '''')"
  by (simp add: parseMetricName_def Let_def)

text \<open>
  C5. A name that contains \<open>-for-broker-\<close> is split at the first occurrence of that marker
  into the base name (the text before it) and the broker (the text after it), with an empty
  topic. A name without that marker that contains \<open>-for-topic-\<close> is split the same way into
  base name and topic, with an empty broker. A name with neither marker comes back
  unchanged with empty broker and topic. The function is total and has no error result.
\<close>

theorem parseMetricName_spec:
  "(contains name ''-for-broker-'' \<longrightarrow>
      (\<exists>base broker. name = base @ ''-for-broker-'' @ broker \<and>
         (\<forall>p q. name = p @ ''-for-broker-'' @ q \<longrightarrow> length base \<le> length p) \<and>
         parseMetricName name = (base, broker, ''''))) \<and>
   (\<not> contains name ''-for-broker-'' \<and> contains name ''-for-topic-'' \<longrightarrow>
      (\<exists>base topic. name = base @ ''-for-topic-'' @ topic \<and>
         (\<forall>p q. name = p @ ''-for-topic-'' @ q \<longrightarrow> length base \<le> length p) \<and>
         parseMetricName name = (base, '''', topic))) \<and>
   (\<not> contains name ''-for-broker-'' \<and> \<not> contains name ''-for-topic-'' \<longrightarrow>
      parseMetricName name = (name, '''', ''''))"
proof (intro conjI impI)
  assume "contains name ''-for-broker-''"
  then have nn: "0 \<le> Index name ''-for-broker-''" by (simp only: contains_Index)
  show "\<exists>base broker. name = base @ ''-for-broker-'' @ broker \<and>
         (\<forall>p q. name = p @ ''-for-broker-'' @ q \<longrightarrow> length base \<le> length p) \<and>
         parseMetricName name = (base, broker, '''')"
    apply (rule exI[where x = "take (nat (Index name ''-for-broker-'')) name"])
    apply (rule exI[where x = "drop (nat (Index name ''-for-broker-'') + length ''-for-broker-'') name"])
    using parse_first_occurrence[OF nn] parse_broker[OF nn] by blast
next
  assume "\<not> contains name ''-for-broker-'' \<and> contains name ''-for-topic-''"
  then have nb: "\<not> 0 \<le> Index name ''-for-broker-''" and nn: "0 \<le> Index name ''-for-topic-''"
    by (simp_all add: contains_Index)
  show "\<exists>base topic. name = base @ ''-for-topic-'' @ topic \<and>
         (\<forall>p q. name = p @ ''-for-topic-'' @ q \<longrightarrow> length base \<le> length p) \<and>
         parseMetricName name = (base, '''', topic)"
    apply (rule exI[where x = "take (nat (Index name ''-for-topic-'')) name"])
    apply (rule exI[where x = "drop (nat (Index name ''-for-topic-'') + length ''-for-topic-'') name"])
    using parse_first_occurrence[OF nn] parse_topic[OF nb nn] by blast
next
  assume "\<not> contains name ''-for-broker-'' \<and> \<not> contains name ''-for-topic-''"
  then show "parseMetricName name = (name, '''', '''')"
    using parse_neither[of name] by (simp add: contains_Index)
qed

theorem parseMetricName_spec_witness:
  "contains ''outgoing-byte-rate-for-broker-7'' ''-for-broker-'' \<and>
   (\<exists>base broker. ''outgoing-byte-rate-for-broker-7'' = base @ ''-for-broker-'' @ broker \<and>
      parseMetricName ''outgoing-byte-rate-for-broker-7'' = (base, broker, '''')) \<and>
   \<not> contains ''req-rate-for-topic-orders'' ''-for-broker-'' \<and>
   contains ''req-rate-for-topic-orders'' ''-for-topic-'' \<and>
   (\<exists>base topic. ''req-rate-for-topic-orders'' = base @ ''-for-topic-'' @ topic \<and>
      parseMetricName ''req-rate-for-topic-orders'' = (base, '''', topic)) \<and>
   \<not> contains ''produce-errors'' ''-for-broker-'' \<and>
   \<not> contains ''produce-errors'' ''-for-topic-'' \<and>
   parseMetricName ''produce-errors'' = (''produce-errors'', '''', '''')"
proof -
  have b1: "contains ''outgoing-byte-rate-for-broker-7'' ''-for-broker-''"
    by (simp add: contains_Index)
  have b2: "\<not> contains ''req-rate-for-topic-orders'' ''-for-broker-''"
    by (simp add: contains_Index)
  have t2: "contains ''req-rate-for-topic-orders'' ''-for-topic-''"
    by (simp add: contains_Index)
  have b3: "\<not> contains ''produce-errors'' ''-for-broker-''"
    by (simp add: contains_Index)
  have t3: "\<not> contains ''produce-errors'' ''-for-topic-''"
    by (simp add: contains_Index)
  from parseMetricName_spec[of "''outgoing-byte-rate-for-broker-7''"] b1
  have r1: "\<exists>base broker. ''outgoing-byte-rate-for-broker-7'' = base @ ''-for-broker-'' @ broker \<and>
      parseMetricName ''outgoing-byte-rate-for-broker-7'' = (base, broker, '''')"
    by blast
  from parseMetricName_spec[of "''req-rate-for-topic-orders''"] b2 t2
  have r2: "\<exists>base topic. ''req-rate-for-topic-orders'' = base @ ''-for-topic-'' @ topic \<and>
      parseMetricName ''req-rate-for-topic-orders'' = (base, '''', topic)"
    by blast
  from parseMetricName_spec[of "''produce-errors''"] b3 t3
  have r3: "parseMetricName ''produce-errors'' = (''produce-errors'', '''', '''')"
    by blast
  from b1 b2 t2 b3 t3 r1 r2 r3 show ?thesis by blast
qed

section \<open>Evaluation\<close>

text \<open>The equations that run the operations on a concrete exporter.\<close>

lemmas run_defs = fresh_exporter_def accepting_def update_def update_callback_def
  gaugeFromNameAndValue_def histogramFromNameAndMetric_def metricNameAndLabels_def
  parseMetricName_def bind_and_set_def With_def Set_gauge_def
  gauge_value_def deref_def map_assign_def lookup_bool_def getCollector_def snapshotData_def
  createKey_def uint64_of_int64_def uint64_of_float64_def Let_def

lemmas string_defs = sanitizeName_map sanitize_char_def allowed_def

lemmas demo_defs = demo_options_def demo_exporter_def first_snapshot_def second_snapshot_def

section \<open>The label resolver\<close>

text \<open>The four ways through \<open>metricNameAndLabels\<close>, and what it can change.\<close>

lemma parse_one_dimension:
  "parseMetricName name = (base, broker, topic) \<Longrightarrow> broker = '''' \<or> topic = ''''"
  by (auto simp: parseMetricName_def Let_def split: if_splits)

lemma mnl_skip:
  "parseMetricName name = (base, '''', '''') \<Longrightarrow>
   metricNameAndLabels c name = Inr (base, NilMap, True, c)"
  by (simp add: metricNameAndLabels_def)

lemma mnl_hit:
  "parseMetricName name = (base, broker, topic) \<Longrightarrow> broker \<noteq> '''' \<or> topic \<noteq> '''' \<Longrightarrow>
   labelsMap c name = Some l \<Longrightarrow>
   metricNameAndLabels c name = Inr (base, l, False, c)"
  by (auto simp: metricNameAndLabels_def)

lemma mnl_miss_nil:
  "parseMetricName name = (base, broker, topic) \<Longrightarrow> broker \<noteq> '''' \<or> topic \<noteq> '''' \<Longrightarrow>
   labelsMap c name = None \<Longrightarrow> Labels (opt c) = NilMap \<Longrightarrow>
   metricNameAndLabels c name = Inl NilMapAssignment"
  by (auto simp: metricNameAndLabels_def map_assign_def Let_def)

lemma mnl_miss:
  assumes "parseMetricName name = (base, broker, topic)" and "broker \<noteq> '''' \<or> topic \<noteq> ''''"
    and "labelsMap c name = None" and "Labels (opt c) = MapRef a"
  shows "metricNameAndLabels c name =
     Inr (base, MapRef a, False,
          c\<lparr>label_objs := (label_objs c)
               (a := (label_objs c a)(if broker \<noteq> '''' then ''broker'' else ''topic'' \<mapsto>
                                       if broker \<noteq> '''' then broker else topic)),
            labelsMap := (labelsMap c)(name \<mapsto> MapRef a)\<rparr>)"
  using assms parse_one_dimension[OF assms(1)]
  by (auto simp: metricNameAndLabels_def map_assign_def Let_def)



text \<open>
  C7. For every raw name that contains neither marker, \<open>metricNameAndLabels\<close> returns
  \<open>skip = true\<close>, and \<open>gaugeFromNameAndValue\<close> returns no error and leaves the exporter as it
  was but for the line printed in debug mode: the handle cache, the name set, the calls
  received by the registerer and the gauge vectors are unchanged.
\<close>

theorem no_dimension_is_skipped:
  assumes "\<not> contains name ''-for-broker-''" and "\<not> contains name ''-for-topic-''"
  shows "metricNameAndLabels c name = Inr (name, NilMap, True, c) \<and>
         (\<exists>c'. gaugeFromNameAndValue env c name val = Inr (None, c') \<and>
               c' = (if Debug (opt c) then c\<lparr>stdout := stdout c @ [LogSkip name]\<rparr> else c) \<and>
               gauges c' = gauges c \<and> metricsNameMap c' = metricsNameMap c \<and>
               promRegistry c' = promRegistry c \<and> gauge_objs c' = gauge_objs c \<and>
               next_vec c' = next_vec c)"
proof -
  from assms have p: "parseMetricName name = (name, '''', '''')"
    by (simp add: contains_Index parse_neither)
  have r: "metricNameAndLabels c name = Inr (name, NilMap, True, c)"
    by (rule mnl_skip[OF p])
  then show ?thesis by (simp add: gaugeFromNameAndValue_def)
qed

theorem no_dimension_is_skipped_witness:
  "\<not> contains ''produce-errors'' ''-for-broker-'' \<and> \<not> contains ''produce-errors'' ''-for-topic-'' \<and>
   gaugeFromNameAndValue accepting
      (fresh_exporter \<lparr>Namespace = ''ns'', Subsystem = ''sarama'', Labels = MapRef 0, Debug = True\<rparr>
         [] [] (\<lambda>a. Map.empty)) ''produce-errors'' 4 =
     Inr (None, (fresh_exporter \<lparr>Namespace = ''ns'', Subsystem = ''sarama'', Labels = MapRef 0, Debug = True\<rparr>
         [] [] (\<lambda>a. Map.empty))\<lparr>stdout := [LogSkip ''produce-errors'']\<rparr>)"
proof -
  have a: "\<not> contains ''produce-errors'' ''-for-broker-''" by (simp add: contains_Index)
  have b: "\<not> contains ''produce-errors'' ''-for-topic-''" by (simp add: contains_Index)
  from no_dimension_is_skipped[OF a b, of "fresh_exporter \<lparr>Namespace = ''ns'', Subsystem = ''sarama'', Labels = MapRef 0, Debug = True\<rparr>
         [] [] (\<lambda>a. Map.empty)" accepting 4] a b
  show ?thesis by (simp add: fresh_exporter_def)
qed

text \<open>
  C10. On a cache miss with a configured label map (not nil), \<open>metricNameAndLabels\<close> stores
  the configured reference itself under the raw name and assigns the parsed \<open>broker\<close> or
  \<open>topic\<close> entry to the one map object behind it. Where every cached label set is the
  configured map (as it is from the first cycle on), it stays so, and the label set read
  through every entry cached before, and through the configuration, has the new entry.
\<close>

theorem label_map_is_shared:
  assumes parse: "parseMetricName name = (base, broker, topic)"
    and dim: "broker \<noteq> '''' \<or> topic \<noteq> ''''"
    and miss: "labelsMap c name = None"
    and conf: "Labels (opt c) = MapRef a"
    and inv: "cache_aliases c"
  shows "\<exists>c' k v. (k, v) = (if broker \<noteq> '''' then (''broker'', broker) else (''topic'', topic)) \<and>
           metricNameAndLabels c name = Inr (base, Labels (opt c), False, c') \<and>
           opt c' = opt c \<and>
           labelsMap c' = (labelsMap c)(name \<mapsto> Labels (opt c)) \<and>
           label_objs c' = (label_objs c)(a := (label_objs c a)(k \<mapsto> v)) \<and>
           cache_aliases c' \<and>
           deref c' (Labels (opt c')) = (deref c (Labels (opt c)))(k \<mapsto> v) \<and>
           (\<forall>n l. labelsMap c n = Some l \<longrightarrow>
                  labelsMap c' n = Some l \<and> deref c' l = (deref c l)(k \<mapsto> v))"
proof -
  define k where "k = (if broker \<noteq> '''' then ''broker'' else ''topic'')"
  define v where "v = (if broker \<noteq> '''' then broker else topic)"
  define c' where "c' = c\<lparr>label_objs := (label_objs c)(a := (label_objs c a)(k \<mapsto> v)),
                          labelsMap := (labelsMap c)(name \<mapsto> MapRef a)\<rparr>"
  have r: "metricNameAndLabels c name = Inr (base, Labels (opt c), False, c')"
    using mnl_miss[OF parse dim miss conf] conf by (simp add: c'_def k_def v_def)
  have kv: "(k, v) = (if broker \<noteq> '''' then (''broker'', broker) else (''topic'', topic))"
    by (simp add: k_def v_def)
  have al: "cache_aliases c'"
    using inv conf by (auto simp: cache_aliases_def c'_def)
  have cfg: "deref c' (Labels (opt c')) = (deref c (Labels (opt c)))(k \<mapsto> v)"
    using conf by (simp add: deref_def c'_def)
  have old: "\<forall>n l. labelsMap c n = Some l \<longrightarrow>
                  labelsMap c' n = Some l \<and> deref c' l = (deref c l)(k \<mapsto> v)"
  proof (intro allI impI)
    fix n l assume h: "labelsMap c n = Some l"
    with miss have "n \<noteq> name" by auto
    moreover from h inv conf have "l = MapRef a" by (auto simp: cache_aliases_def)
    ultimately show "labelsMap c' n = Some l \<and> deref c' l = (deref c l)(k \<mapsto> v)"
      using h by (simp add: c'_def deref_def)
  qed
  show ?thesis
    apply (rule exI[where x = c'], rule exI[where x = k], rule exI[where x = v])
    using r kv al cfg old by (simp add: c'_def conf)
qed

theorem label_map_is_shared_witness:
  "\<exists>c1 c2.
     metricNameAndLabels
       (fresh_exporter \<lparr>Namespace = ''ns'', Subsystem = ''sarama'', Labels = MapRef 0, Debug = False\<rparr>
          [] [] (\<lambda>a. Map.empty)) ''a-for-broker-1'' = Inr (''a'', MapRef 0, False, c1) \<and>
     labelsMap c1 ''a-for-broker-1'' = Some (MapRef 0) \<and>
     deref c1 (MapRef 0) = [''broker'' \<mapsto> ''1''] \<and>
     metricNameAndLabels c1 ''b-for-topic-x'' = Inr (''b'', MapRef 0, False, c2) \<and>
     labelsMap c2 ''a-for-broker-1'' = Some (MapRef 0) \<and>
     labelsMap c2 ''b-for-topic-x'' = Some (MapRef 0) \<and>
     deref c2 (MapRef 0) = [''broker'' \<mapsto> ''1'', ''topic'' \<mapsto> ''x''] \<and>
     deref c2 (Labels (opt c2)) = [''broker'' \<mapsto> ''1'', ''topic'' \<mapsto> ''x'']"
proof -
  define c0 where "c0 = fresh_exporter \<lparr>Namespace = ''ns'', Subsystem = ''sarama'', Labels = MapRef 0, Debug = False\<rparr>
          [] [] (\<lambda>a. Map.empty)"
  have p1: "parseMetricName ''a-for-broker-1'' = (''a'', ''1'', '''')"
    by (simp add: parseMetricName_def)
  have p2: "parseMetricName ''b-for-topic-x'' = (''b'', '''', ''x'')"
    by (simp add: parseMetricName_def)
  have i0: "cache_aliases c0" by (simp add: cache_aliases_def c0_def fresh_exporter_def)
  from label_map_is_shared[OF p1 _ _ _ i0, of 0]
  obtain c1 where r1: "metricNameAndLabels c0 ''a-for-broker-1'' = Inr (''a'', MapRef 0, False, c1)"
    and o1: "opt c1 = opt c0"
    and m1: "labelsMap c1 = (labelsMap c0)(''a-for-broker-1'' \<mapsto> MapRef 0)"
    and l1: "label_objs c1 = (label_objs c0)(0 := (label_objs c0 0)(''broker'' \<mapsto> ''1''))"
    and i1: "cache_aliases c1"
    by (auto simp: c0_def fresh_exporter_def)
  have miss2: "labelsMap c1 ''b-for-topic-x'' = None" by (simp add: m1 c0_def fresh_exporter_def)
  have conf1: "Labels (opt c1) = MapRef 0" by (simp add: o1 c0_def fresh_exporter_def)
  have d1: "deref c1 (MapRef 0) = [''broker'' \<mapsto> ''1'']"
    by (simp add: deref_def l1 c0_def fresh_exporter_def)
  from label_map_is_shared[OF p2 _ miss2 conf1 i1]
  obtain c2 where r2: "metricNameAndLabels c1 ''b-for-topic-x'' = Inr (''b'', MapRef 0, False, c2)"
    and o2: "opt c2 = opt c1"
    and m2: "labelsMap c2 = (labelsMap c1)(''b-for-topic-x'' \<mapsto> MapRef 0)"
    and old: "\<forall>n l. labelsMap c1 n = Some l \<longrightarrow>
                labelsMap c2 n = Some l \<and> deref c2 l = (deref c1 l)(''topic'' \<mapsto> ''x'')"
    by (auto simp: conf1)
  have a1: "labelsMap c1 ''a-for-broker-1'' = Some (MapRef 0)" by (simp add: m1)
  with old have a2: "labelsMap c2 ''a-for-broker-1'' = Some (MapRef 0)"
    and d2: "deref c2 (MapRef 0) = (deref c1 (MapRef 0))(''topic'' \<mapsto> ''x'')" by blast+
  have "deref c2 (Labels (opt c2)) = deref c2 (MapRef 0)" by (simp add: o2 conf1)
  with r1 a1 d1 r2 a2 d2 m2 show ?thesis unfolding c0_def by auto
qed

section \<open>The gauge publisher\<close>

lemma With_ok:
  "gv_labelNames g = dom lv \<Longrightarrow>
   \<exists>c1. With g lv c = Inr (Child (gv_addr g) lv, c1) \<and>
        c1 = c\<lparr>gauge_objs := gauge_objs c1\<rparr> \<and> gauge_objs c1 (gv_addr g) lv \<noteq> None"
  by (auto simp: With_def split: option.splits)

lemma bind_and_set_ok:
  assumes "gv_labelNames g = dom (deref c labels)"
  shows "\<exists>c'. bind_and_set c name g labels val = Inr (None, c') \<and>
           c' = c\<lparr>gauges := gauges c', gauge_objs := gauge_objs c'\<rparr> \<and>
           gauges c' = (gauges c)(name \<mapsto> Child (gv_addr g) (deref c labels)) \<and>
           gauge_value c' (Child (gv_addr g) (deref c labels)) = Some val"
  using assms
  by (auto simp: bind_and_set_def With_def Set_gauge_def gauge_value_def split: option.splits)

lemma bind_and_set_panic:
  "gv_labelNames g \<noteq> dom (deref c labels) \<Longrightarrow> bind_and_set c name g labels val = Inl WithPanic"
  by (auto simp: bind_and_set_def With_def)

text \<open>The gauge publish at a handle miss and a name miss, up to the registration.\<close>

lemma gauge_register_step:
  assumes res: "metricNameAndLabels c name = Inr (shortName, labels, False, c1)"
    and nohandle: "gauges c1 name = None"
    and miss: "\<not> lookup_bool (metricsNameMap c1) (sanitizeName shortName)"
  shows "gaugeFromNameAndValue env c name val =
     (let g = \<lparr>gv_addr = next_vec c1,
               gv_Namespace = sanitizeName (Namespace (opt c1)),
               gv_Subsystem = sanitizeName (Subsystem (opt c1)),
               gv_Name = sanitizeName shortName,
               gv_Help = shortName,
               gv_labelNames = dom (deref c1 labels)\<rparr>;
          c4 = c1\<lparr>metricsNameMap := (metricsNameMap c1)(sanitizeName shortName \<mapsto> True),
                  next_vec := Suc (next_vec c1),
                  gauge_objs := (gauge_objs c1)(next_vec c1 := Map.empty),
                  promRegistry := promRegistry c1 @ [GaugeVecC g]\<rparr>
      in case Register env (promRegistry c1) (GaugeVecC g) of
           None \<Rightarrow> bind_and_set c4 name g labels val
         | Some (AlreadyRegisteredError existing) \<Rightarrow>
             (case existing of
                GaugeVecC g' \<Rightarrow> bind_and_set c4 name g' labels val
              | CustomCollectorC a \<Rightarrow> Inr (Some NotGaugeVec, c4)
              | OtherCollector k \<Rightarrow> Inr (Some NotGaugeVec, c4))
         | Some (OtherError e) \<Rightarrow> Inr (Some (RegisterFailed e), c4))"
  using res nohandle miss
  by (simp add: gaugeFromNameAndValue_def Let_def deref_def
           split: option.splits reg_error.splits collector.splits)

text \<open>
  C9. A gauge publish that reaches the registration (no handle for the raw name, name not
  in the set) and is answered with an error \<open>e\<close>: if \<open>e\<close> is \<open>AlreadyRegisteredError\<close> with a
  gauge vector, the publish binds its handle to that existing vector, sets the value and
  returns no error (the existing vector has the label names of the label set, as a
  registry answers \<open>AlreadyRegisteredError\<close> only for an equal description; with other
  label names \<open>With\<close> panics); if the existing collector is not a gauge vector, the publish
  returns the type-mismatch error; any other error is returned as it is.
\<close>

theorem already_registered_recovery:
  assumes res: "metricNameAndLabels c name = Inr (shortName, labels, False, c1)"
    and nohandle: "gauges c1 name = None"
    and miss: "\<not> lookup_bool (metricsNameMap c1) (sanitizeName shortName)"
    and g: "g = \<lparr>gv_addr = next_vec c1,
               gv_Namespace = sanitizeName (Namespace (opt c1)),
               gv_Subsystem = sanitizeName (Subsystem (opt c1)),
               gv_Name = sanitizeName shortName,
               gv_Help = shortName,
               gv_labelNames = dom (deref c1 labels)\<rparr>"
    and reg: "Register env (promRegistry c1) (GaugeVecC g) = Some e"
  shows "(\<forall>g'. e = AlreadyRegisteredError (GaugeVecC g') \<and> gv_labelNames g' = dom (deref c1 labels) \<longrightarrow>
            (\<exists>c'. gaugeFromNameAndValue env c name val = Inr (None, c') \<and>
                  gauges c' name = Some (Child (gv_addr g') (deref c1 labels)) \<and>
                  gauge_value c' (Child (gv_addr g') (deref c1 labels)) = Some val)) \<and>
         (\<forall>g'. e = AlreadyRegisteredError (GaugeVecC g') \<and> gv_labelNames g' \<noteq> dom (deref c1 labels) \<longrightarrow>
            gaugeFromNameAndValue env c name val = Inl WithPanic) \<and>
         (\<forall>x. e = AlreadyRegisteredError x \<and> (\<forall>g'. x \<noteq> GaugeVecC g') \<longrightarrow>
            (\<exists>c'. gaugeFromNameAndValue env c name val = Inr (Some NotGaugeVec, c') \<and>
                  gauges c' name = None)) \<and>
         (\<forall>msg. e = OtherError msg \<longrightarrow>
            (\<exists>c'. gaugeFromNameAndValue env c name val = Inr (Some (RegisterFailed msg), c') \<and>
                  gauges c' name = None))"
proof -
  define c4 where "c4 = c1\<lparr>metricsNameMap := (metricsNameMap c1)(sanitizeName shortName \<mapsto> True),
                  next_vec := Suc (next_vec c1),
                  gauge_objs := (gauge_objs c1)(next_vec c1 := Map.empty),
                  promRegistry := promRegistry c1 @ [GaugeVecC g]\<rparr>"
  have d4: "deref c4 labels = deref c1 labels"
    by (simp add: c4_def deref_def split: labels.splits)
  have g4: "gauges c4 name = None" using nohandle by (simp add: c4_def)
  have step: "gaugeFromNameAndValue env c name val =
      (case e of
         AlreadyRegisteredError existing \<Rightarrow>
           (case existing of
              GaugeVecC g' \<Rightarrow> bind_and_set c4 name g' labels val
            | CustomCollectorC a \<Rightarrow> Inr (Some NotGaugeVec, c4)
            | OtherCollector k \<Rightarrow> Inr (Some NotGaugeVec, c4))
       | OtherError msg \<Rightarrow> Inr (Some (RegisterFailed msg), c4))"
    unfolding c4_def
    using gauge_register_step[OF res nohandle miss, of env val] reg
    by (simp add: Let_def g[symmetric])
  show ?thesis
  proof (intro conjI allI impI)
    fix g' assume h: "e = AlreadyRegisteredError (GaugeVecC g') \<and> gv_labelNames g' = dom (deref c1 labels)"
    then have "gv_labelNames g' = dom (deref c4 labels)" by (simp add: d4)
    from bind_and_set_ok[OF this, of name val] h step
    show "\<exists>c'. gaugeFromNameAndValue env c name val = Inr (None, c') \<and>
                  gauges c' name = Some (Child (gv_addr g') (deref c1 labels)) \<and>
                  gauge_value c' (Child (gv_addr g') (deref c1 labels)) = Some val"
      by (auto simp: d4)
  next
    fix g' assume h: "e = AlreadyRegisteredError (GaugeVecC g') \<and> gv_labelNames g' \<noteq> dom (deref c1 labels)"
    then have "gv_labelNames g' \<noteq> dom (deref c4 labels)" by (simp add: d4)
    from bind_and_set_panic[OF this, of name val] h step
    show "gaugeFromNameAndValue env c name val = Inl WithPanic" by simp
  next
    fix x assume h: "e = AlreadyRegisteredError x \<and> (\<forall>g'. x \<noteq> GaugeVecC g')"
    with step g4
    show "\<exists>c'. gaugeFromNameAndValue env c name val = Inr (Some NotGaugeVec, c') \<and> gauges c' name = None"
      by (cases x) auto
  next
    fix msg assume "e = OtherError msg"
    with step g4
    show "\<exists>c'. gaugeFromNameAndValue env c name val = Inr (Some (RegisterFailed msg), c') \<and> gauges c' name = None"
      by auto
  qed
qed

theorem already_registered_recovery_witness:
  "(\<exists>c'. gaugeFromNameAndValue
            \<lparr>Register = (\<lambda>calls col. Some (AlreadyRegisteredError (GaugeVecC
                 \<lparr>gv_addr = 7, gv_Namespace = ''ns'', gv_Subsystem = ''sarama'', gv_Name = ''x'',
                  gv_Help = ''x'', gv_labelNames = {''broker''}\<rparr>))),
             ConstHistogramCheck = (\<lambda>desc n s b. None)\<rparr>
            (fresh_exporter \<lparr>Namespace = ''ns'', Subsystem = ''sarama'', Labels = MapRef 0, Debug = False\<rparr>
               [] [] (\<lambda>a. Map.empty)) ''x-for-broker-1'' 3 = Inr (None, c') \<and>
         gauges c' ''x-for-broker-1'' = Some (Child 7 [''broker'' \<mapsto> ''1'']) \<and>
         gauge_value c' (Child 7 [''broker'' \<mapsto> ''1'']) = Some 3) \<and>
   (\<exists>c'. gaugeFromNameAndValue
            \<lparr>Register = (\<lambda>calls col. Some (AlreadyRegisteredError (OtherCollector 0))),
             ConstHistogramCheck = (\<lambda>desc n s b. None)\<rparr>
            (fresh_exporter \<lparr>Namespace = ''ns'', Subsystem = ''sarama'', Labels = MapRef 0, Debug = False\<rparr>
               [] [] (\<lambda>a. Map.empty)) ''x-for-broker-1'' 3 = Inr (Some NotGaugeVec, c') \<and>
         gauges c' ''x-for-broker-1'' = None) \<and>
   (\<exists>c'. gaugeFromNameAndValue
            \<lparr>Register = (\<lambda>calls col. Some (OtherError ''refused'')),
             ConstHistogramCheck = (\<lambda>desc n s b. None)\<rparr>
            (fresh_exporter \<lparr>Namespace = ''ns'', Subsystem = ''sarama'', Labels = MapRef 0, Debug = False\<rparr>
               [] [] (\<lambda>a. Map.empty)) ''x-for-broker-1'' 3 = Inr (Some (RegisterFailed ''refused''), c') \<and>
         gauges c' ''x-for-broker-1'' = None) \<and>
   gaugeFromNameAndValue
     \<lparr>Register = (\<lambda>calls col. Some (AlreadyRegisteredError (GaugeVecC
          \<lparr>gv_addr = 7, gv_Namespace = ''ns'', gv_Subsystem = ''sarama'', gv_Name = ''x'',
           gv_Help = ''x'', gv_labelNames = {''topic''}\<rparr>))),
      ConstHistogramCheck = (\<lambda>desc n s b. None)\<rparr>
     (fresh_exporter \<lparr>Namespace = ''ns'', Subsystem = ''sarama'', Labels = MapRef 0, Debug = False\<rparr>
        [] [] (\<lambda>a. Map.empty)) ''x-for-broker-1'' 3 = Inl WithPanic"
proof -
  define c0 where "c0 = fresh_exporter \<lparr>Namespace = ''ns'', Subsystem = ''sarama'', Labels = MapRef 0, Debug = False\<rparr>
          [] [] (\<lambda>a. Map.empty)"
  define c1 where "c1 = c0\<lparr>label_objs := (label_objs c0)(0 := [''broker'' \<mapsto> ''1'']),
                          labelsMap := (labelsMap c0)(''x-for-broker-1'' \<mapsto> MapRef 0)\<rparr>"
  define g where "g = \<lparr>gv_addr = next_vec c1,
               gv_Namespace = sanitizeName (Namespace (opt c1)),
               gv_Subsystem = sanitizeName (Subsystem (opt c1)),
               gv_Name = sanitizeName ''x'',
               gv_Help = ''x'',
               gv_labelNames = dom (deref c1 (MapRef 0))\<rparr>"
  have res: "metricNameAndLabels c0 ''x-for-broker-1'' = Inr (''x'', MapRef 0, False, c1)"
    by (simp add: c0_def c1_def fresh_exporter_def metricNameAndLabels_def parseMetricName_def
          map_assign_def Let_def)
  have nh: "gauges c1 ''x-for-broker-1'' = None" by (simp add: c1_def c0_def fresh_exporter_def)
  have ms: "\<not> lookup_bool (metricsNameMap c1) (sanitizeName ''x'')"
    by (simp add: c1_def c0_def fresh_exporter_def lookup_bool_def)
  have d: "deref c1 (MapRef 0) = [''broker'' \<mapsto> ''1'']" by (simp add: deref_def c1_def)
  have A: "\<exists>c'. gaugeFromNameAndValue
            \<lparr>Register = (\<lambda>calls col. Some (AlreadyRegisteredError (GaugeVecC
                 \<lparr>gv_addr = 7, gv_Namespace = ''ns'', gv_Subsystem = ''sarama'', gv_Name = ''x'',
                  gv_Help = ''x'', gv_labelNames = {''broker''}\<rparr>))),
             ConstHistogramCheck = (\<lambda>desc n s b. None)\<rparr> c0 ''x-for-broker-1'' 3 = Inr (None, c') \<and>
         gauges c' ''x-for-broker-1'' = Some (Child 7 [''broker'' \<mapsto> ''1'']) \<and>
         gauge_value c' (Child 7 [''broker'' \<mapsto> ''1'']) = Some 3"
    using already_registered_recovery[OF res nh ms g_def, of
            "\<lparr>Register = (\<lambda>calls col. Some (AlreadyRegisteredError (GaugeVecC
                 \<lparr>gv_addr = 7, gv_Namespace = ''ns'', gv_Subsystem = ''sarama'', gv_Name = ''x'',
                  gv_Help = ''x'', gv_labelNames = {''broker''}\<rparr>))),
             ConstHistogramCheck = (\<lambda>desc n s b. None)\<rparr>"
            "AlreadyRegisteredError (GaugeVecC
                 \<lparr>gv_addr = 7, gv_Namespace = ''ns'', gv_Subsystem = ''sarama'', gv_Name = ''x'',
                  gv_Help = ''x'', gv_labelNames = {''broker''}\<rparr>)" 3]
    by (simp add: d)
  have B: "\<exists>c'. gaugeFromNameAndValue
            \<lparr>Register = (\<lambda>calls col. Some (AlreadyRegisteredError (OtherCollector 0))),
             ConstHistogramCheck = (\<lambda>desc n s b. None)\<rparr> c0 ''x-for-broker-1'' 3 = Inr (Some NotGaugeVec, c') \<and>
         gauges c' ''x-for-broker-1'' = None"
    using already_registered_recovery[OF res nh ms g_def, of
            "\<lparr>Register = (\<lambda>calls col. Some (AlreadyRegisteredError (OtherCollector 0))),
             ConstHistogramCheck = (\<lambda>desc n s b. None)\<rparr>"
            "AlreadyRegisteredError (OtherCollector 0)" 3]
    by simp
  have C: "\<exists>c'. gaugeFromNameAndValue
            \<lparr>Register = (\<lambda>calls col. Some (OtherError ''refused'')),
             ConstHistogramCheck = (\<lambda>desc n s b. None)\<rparr> c0 ''x-for-broker-1'' 3 = Inr (Some (RegisterFailed ''refused''), c') \<and>
         gauges c' ''x-for-broker-1'' = None"
    using already_registered_recovery[OF res nh ms g_def, of
            "\<lparr>Register = (\<lambda>calls col. Some (OtherError ''refused'')),
             ConstHistogramCheck = (\<lambda>desc n s b. None)\<rparr>"
            "OtherError ''refused''" 3]
    by simp
  have D: "gaugeFromNameAndValue
     \<lparr>Register = (\<lambda>calls col. Some (AlreadyRegisteredError (GaugeVecC
          \<lparr>gv_addr = 7, gv_Namespace = ''ns'', gv_Subsystem = ''sarama'', gv_Name = ''x'',
           gv_Help = ''x'', gv_labelNames = {''topic''}\<rparr>))),
      ConstHistogramCheck = (\<lambda>desc n s b. None)\<rparr> c0 ''x-for-broker-1'' 3 = Inl WithPanic"
    using already_registered_recovery[OF res nh ms g_def, of
            "\<lparr>Register = (\<lambda>calls col. Some (AlreadyRegisteredError (GaugeVecC
                 \<lparr>gv_addr = 7, gv_Namespace = ''ns'', gv_Subsystem = ''sarama'', gv_Name = ''x'',
                  gv_Help = ''x'', gv_labelNames = {''topic''}\<rparr>))),
             ConstHistogramCheck = (\<lambda>desc n s b. None)\<rparr>"
            "AlreadyRegisteredError (GaugeVecC
                 \<lparr>gv_addr = 7, gv_Namespace = ''ns'', gv_Subsystem = ''sarama'', gv_Name = ''x'',
                  gv_Help = ''x'', gv_labelNames = {''topic''}\<rparr>)" 3]
    by (simp add: d)
  from A B C D show ?thesis unfolding c0_def by blast
qed

section \<open>The registration invariant\<close>






















section \<open>The update cycle\<close>





section \<open>The scenarios\<close>

text \<open>
  C8. On an exporter before its first cycle, with a configured label map and a registerer
  and library that accept what they are given, one cycle over the histogram
  \<open>outgoing-byte-rate-for-broker-7\<close> with the samples 10, 20, 30, count 3, sum 60 and the
  boundaries 0.5 and 0.95 returns no error, sets the gauge of that raw name to 30, the last
  sample, and stores in the collector of that raw name an observation with the configured
  labels and \<open>broker = 7\<close>, count 3, sum 60, and the bucket map that sends each boundary to
  the quantile the snapshot reports there (a whole number below \<open>2^64\<close>, as \<open>uint64\<close> keeps it).
\<close>

theorem histogram_scenario:
  assumes conf: "Labels options = MapRef a"
    and reg: "\<forall>calls col. Register env calls col = None"
    and chk: "\<forall>desc n s b. ConstHistogramCheck env desc n s b = None"
    and vals: "hs_Values snapshot = [10, 20, 30]"
    and cnt: "hs_Count snapshot = 3"
    and sum: "hs_Sum snapshot = 60"
    and ps: "hs_Percentiles snapshot [1/2, 19/20] = [real q50, real q95]"
    and q50: "q50 < 2 ^ 64" and q95: "q95 < 2 ^ 64"
  shows "\<exists>c' h col.
      update env [(''outgoing-byte-rate-for-broker-7'', Histogram snapshot)]
        (fresh_exporter options [1/2, 19/20] tb objs) = Inr (None, c') \<and>
      gauges c' ''outgoing-byte-rate-for-broker-7'' = Some h \<and>
      gauge_value c' h = Some 30 \<and>
      customMetrics c' (createKey c' ''outgoing-byte-rate-for-broker-7'') = Some col \<and>
      collector_objs c' col =
        Some \<lparr>h_desc = \<lparr>d_fqName = BuildFQName (sanitizeName (Namespace options))
                                      (sanitizeName (Subsystem options))
                                      ''outgoing_byte_rate_histogram'',
                          d_help = ''outgoing_byte_rate'',
                          d_constLabels = (objs a)(''broker'' \<mapsto> ''7'')\<rparr>,
              h_count = 3, h_sum = 60,
              h_buckets = [1/2 \<mapsto> q50, 19/20 \<mapsto> q95]\<rparr>"
proof -
  have s1: "sanitizeName ''outgoing-byte-rate'' = ''outgoing_byte_rate''"
    by (simp add: string_defs)
  have u50: "uint64_of_float64 (real q50) = q50" using q50 by (simp add: uint64_of_float64_def)
  have u95: "uint64_of_float64 (real q95) = q95" using q95 by (simp add: uint64_of_float64_def)
  show ?thesis
    using conf reg chk vals cnt sum ps
    by (simp add: fresh_exporter_def update_def update_callback_def
      gaugeFromNameAndValue_def histogramFromNameAndMetric_def metricNameAndLabels_def
      parseMetricName_def bind_and_set_def With_def Set_gauge_def
      gauge_value_def deref_def map_assign_def lookup_bool_def getCollector_def snapshotData_def
      createKey_def uint64_of_int64_def Let_def s1 u50 u95)
qed

theorem histogram_scenario_witness:
  "\<exists>c' h col.
      update accepting
        [(''outgoing-byte-rate-for-broker-7'',
          Histogram \<lparr>hs_Values = [10, 20, 30], hs_Percentiles = (\<lambda>ps. [20, 30]),
                     hs_Count = 3, hs_Sum = 60\<rparr>)]
        (fresh_exporter \<lparr>Namespace = ''ns'', Subsystem = ''sarama'', Labels = MapRef 0, Debug = False\<rparr>
           [1/2, 19/20] [] (\<lambda>a. Map.empty)) = Inr (None, c') \<and>
      gauges c' ''outgoing-byte-rate-for-broker-7'' = Some h \<and>
      gauge_value c' h = Some 30 \<and>
      customMetrics c' ''ns_sarama_outgoing-byte-rate-for-broker-7'' = Some col \<and>
      collector_objs c' col =
        Some \<lparr>h_desc = \<lparr>d_fqName = ''ns_sarama_outgoing_byte_rate_histogram'',
                          d_help = ''outgoing_byte_rate'',
                          d_constLabels = [''broker'' \<mapsto> ''7'']\<rparr>,
              h_count = 3, h_sum = 60,
              h_buckets = [1/2 \<mapsto> 20, 19/20 \<mapsto> 30]\<rparr>"
proof -
  have "\<exists>c' h col.
      update accepting
        [(''outgoing-byte-rate-for-broker-7'',
          Histogram \<lparr>hs_Values = [10, 20, 30], hs_Percentiles = (\<lambda>ps. [20, 30]),
                     hs_Count = 3, hs_Sum = 60\<rparr>)]
        (fresh_exporter \<lparr>Namespace = ''ns'', Subsystem = ''sarama'', Labels = MapRef 0, Debug = False\<rparr>
           [1/2, 19/20] [] (\<lambda>a. Map.empty)) = Inr (None, c') \<and>
      gauges c' ''outgoing-byte-rate-for-broker-7'' = Some h \<and>
      gauge_value c' h = Some 30 \<and>
      customMetrics c' (createKey c' ''outgoing-byte-rate-for-broker-7'') = Some col \<and>
      collector_objs c' col =
        Some \<lparr>h_desc = \<lparr>d_fqName = BuildFQName (sanitizeName ''ns'') (sanitizeName ''sarama'')
                                      ''outgoing_byte_rate_histogram'',
                          d_help = ''outgoing_byte_rate'',
                          d_constLabels = (Map.empty)(''broker'' \<mapsto> ''7'')\<rparr>,
              h_count = 3, h_sum = 60,
              h_buckets = [1/2 \<mapsto> 20, 19/20 \<mapsto> 30]\<rparr>"
    using histogram_scenario[of "\<lparr>Namespace = ''ns'', Subsystem = ''sarama'', Labels = MapRef 0, Debug = False\<rparr>"
        0 accepting "\<lparr>hs_Values = [10, 20, 30], hs_Percentiles = (\<lambda>ps. [20, 30]),
                     hs_Count = 3, hs_Sum = 60\<rparr>" 20 30 "[]" "\<lambda>a. Map.empty"]
    by (simp add: accepting_def)
  then obtain c' h col where
    u: "update accepting
        [(''outgoing-byte-rate-for-broker-7'',
          Histogram \<lparr>hs_Values = [10, 20, 30], hs_Percentiles = (\<lambda>ps. [20, 30]),
                     hs_Count = 3, hs_Sum = 60\<rparr>)]
        (fresh_exporter \<lparr>Namespace = ''ns'', Subsystem = ''sarama'', Labels = MapRef 0, Debug = False\<rparr>
           [1/2, 19/20] [] (\<lambda>a. Map.empty)) = Inr (None, c')"
    and r: "gauges c' ''outgoing-byte-rate-for-broker-7'' = Some h" "gauge_value c' h = Some 30"
      "customMetrics c' (createKey c' ''outgoing-byte-rate-for-broker-7'') = Some col"
      "collector_objs c' col =
        Some \<lparr>h_desc = \<lparr>d_fqName = BuildFQName (sanitizeName ''ns'') (sanitizeName ''sarama'')
                                      ''outgoing_byte_rate_histogram'',
                          d_help = ''outgoing_byte_rate'',
                          d_constLabels = (Map.empty)(''broker'' \<mapsto> ''7'')\<rparr>,
              h_count = 3, h_sum = 60,
              h_buckets = [1/2 \<mapsto> 20, 19/20 \<mapsto> 30]\<rparr>"
    by blast
  have o: "opt c' = \<lparr>Namespace = ''ns'', Subsystem = ''sarama'', Labels = MapRef 0, Debug = False\<rparr>"
    using u by (auto simp: run_defs string_defs split: if_splits)
  have k: "createKey c' ''outgoing-byte-rate-for-broker-7'' = ''ns_sarama_outgoing-byte-rate-for-broker-7''"
    by (simp add: createKey_def o)
  have f: "BuildFQName (sanitizeName ''ns'') (sanitizeName ''sarama'') ''outgoing_byte_rate_histogram''
        = ''ns_sarama_outgoing_byte_rate_histogram''"
    by (simp add: BuildFQName_def string_defs)
  from u r show ?thesis unfolding k f by blast
qed

text \<open>
  C1 on the code: two cycles over one histogram. The first stores the observation with
  count 3 and sum 60. The second, whose snapshot has count 4 and sum 100, finds the
  suffixed name in the name set and returns before building anything: the collector still
  holds the first observation, while the gauge of the same metric has moved from 30 to 40.
\<close>

theorem histogram_frozen_after_first_cycle:
  "update accepting [(''outgoing-byte-rate-for-broker-7'', Histogram first_snapshot)] demo_exporter
     = Inr (None, after_first_cycle) \<and>
   update accepting [(''outgoing-byte-rate-for-broker-7'', Histogram second_snapshot)] after_first_cycle
     = Inr (None, after_second_cycle) \<and>
   customMetrics after_second_cycle ''ns_sarama_outgoing-byte-rate-for-broker-7'' = Some 0 \<and>
   collector_objs after_second_cycle 0 = collector_objs after_first_cycle 0 \<and>
   map_option h_count (collector_objs after_second_cycle 0) = Some 3 \<and>
   map_option h_sum (collector_objs after_second_cycle 0) = Some 60 \<and>
   map_option h_buckets (collector_objs after_second_cycle 0) = Some [1/2 \<mapsto> 20, 19/20 \<mapsto> 30] \<and>
   gauge_value after_first_cycle (Child 0 [''broker'' \<mapsto> ''7'']) = Some 30 \<and>
   gauge_value after_second_cycle (Child 0 [''broker'' \<mapsto> ''7'']) = Some 40"
  by (simp add: after_second_cycle_def after_first_cycle_def demo_defs run_defs string_defs BuildFQName_def)

text \<open>
  C3 on the code: gauges for \<open>req-rate-for-topic-orders\<close> and \<open>req-rate-for-topic-payments\<close>.
  The vector \<open>req_rate\<close> is handed to the registerer once. The first publish binds a handle
  and sets it to 1; the second finds the name in the set and returns no error without
  binding a handle or setting a value.
\<close>

theorem second_topic_gets_no_handle:
  "gaugeFromNameAndValue accepting demo_exporter ''req-rate-for-topic-orders'' 1 = Inr (None, after_orders) \<and>
   gaugeFromNameAndValue accepting after_orders ''req-rate-for-topic-payments'' 2 = Inr (None, after_payments) \<and>
   gauge_regs ''req_rate'' (promRegistry after_payments) = 1 \<and>
   length (promRegistry after_payments) = 1 \<and>
   gauges after_payments ''req-rate-for-topic-orders'' = Some (Child 0 [''topic'' \<mapsto> ''orders'']) \<and>
   gauges after_payments ''req-rate-for-topic-payments'' = None \<and>
   gauge_objs after_payments 0 = [[''topic'' \<mapsto> ''orders''] \<mapsto> 1] \<and>
   gauge_objs after_payments = gauge_objs after_orders"
  by (simp add: after_payments_def after_orders_def demo_defs run_defs string_defs
        gauge_regs_def is_gauge_named_def)

end
